theory Spec2Isabelle
  imports Complex_Main
begin

section \<open>Completion providers for llama.cpp, DeepSeek and Ollama\<close>

text \<open>
  The three adapters of \<^verbatim>\<open>src/providers\<close> are embedded as functions over an explicit
  world: the configuration store, the state of the backend behind the transport, and the
  ordered trace of every call an adapter makes to a collaborator (logger, store, \<^verbatim>\<open>fetch\<close>,
  OpenAI client, tokenizer cache, editor prompts). A thrown error or a rejected promise is
  the \<open>Inl\<close> branch of the result. The collaborators themselves (\<^verbatim>\<open>fetch\<close>, the OpenAI
  client, \<^verbatim>\<open>Tokenizers\<close>, \<^verbatim>\<open>getCompletionModelMetadata\<close>, the editor's prompts) are not
  part of the sources; they are parameters of the functions that call them.
\<close>

subsection \<open>Data\<close>

datatype level = Debug | Info | Warn

text \<open>
  \<open>Error m\<close> is \<^verbatim>\<open>new Error(m)\<close> as thrown by the adapters. \<open>TypeError\<close> is what the
  runtime raises on a property read of \<^verbatim>\<open>undefined\<close>. \<open>SyntaxError\<close> is a rejected
  \<^verbatim>\<open>response.json()\<close>. \<open>AbortError\<close> is the rejection of a cancelled request,
  \<open>APIError s m\<close> the error of the OpenAI client for a response that is not 2xx, with the
  status and the message the client reports, and \<open>Rejected m\<close> any other rejection of a
  collaborator.
\<close>

datatype error = Error string | TypeError | SyntaxError | AbortError | APIError nat string
  | Rejected string

datatype signal = AbortSignal (aborted: bool)

text \<open>
  The value handed to \<^verbatim>\<open>JSON.stringify\<close> (or to the OpenAI client) as a request body.
\<close>

datatype json = JBool bool | JNum real | JStr string | JArr "json list"
  | JObj "(string \<times> json) list"

text \<open>
  An object literal whose member is \<^verbatim>\<open>undefined\<close> is serialised without that member.
\<close>

definition obj :: "(string \<times> json option) list \<Rightarrow> json" where
  "obj kvs = JObj (List.map_filter (\<lambda>(k, v). map_option (Pair k) v) kvs)"

record request =
  url :: string
  "method" :: string
  headers :: "(string \<times> string) list"
  body :: "json option"
  signal :: "signal option"

record timings =
  prompt_n :: "real option"
  prompt_ms :: "real option"
  prompt_per_second :: "real option"
  predicted_n :: "real option"
  predicted_ms :: "real option"
  predicted_per_second :: "real option"

record ollama_model =
  name :: string

text \<open>
  A parsed response body, seen through the interfaces the adapters cast it to
  (\<^verbatim>\<open>LlamaCppTokenizeResponse\<close>, \<^verbatim>\<open>LlamaCppDetokenizeResponse\<close>, \<^verbatim>\<open>LlamaCppInfillResponse\<close>,
  \<^verbatim>\<open>OllamaTagsResponse\<close>, \<^verbatim>\<open>OllamaGenerateResponse\<close>). The cast \<^verbatim>\<open>as T\<close> checks nothing,
  so every member may be absent (\<open>None\<close> is \<^verbatim>\<open>undefined\<close>); a member that is present has
  its declared type. Members no adapter reads are left out.
\<close>

record body =
  tokens :: "int list option"
  content :: "string option"
  tokens_cached :: "real option"
  truncated :: "bool option"
  timings :: "timings option"
  models :: "ollama_model list option"
  response :: "string option"
  eval_duration :: "real option"
  eval_count :: "real option"

record http_response =
  status :: nat
  statusText :: string
  text_body :: "string option"
  json_body :: "body option"

text \<open>\<^verbatim>\<open>response.ok\<close>: the status is in the range 200 to 299.\<close>

definition ok :: "http_response \<Rightarrow> bool" where
  "ok r = (200 \<le> status r \<and> status r \<le> 299)"

text \<open>The completion object returned by the OpenAI client.\<close>

record choice =
  choice_text :: "string option"

record completion =
  choices :: "choice list option"

record client_options =
  apiKey :: "string option"
  baseURL :: string

text \<open>
  Modelled from the spec: \<^verbatim>\<open>ICompletionModelConfig\<close> is declared in \<^verbatim>\<open>../interfaces\<close>,
  which is not among the sources. Its members are the nickname, the provider id, the model
  and the context window, as every \<^verbatim>\<open>configure\<close> stores them. The adapters' own interfaces
  add the \<^verbatim>\<open>baseUrl\<close> (all three) and the \<^verbatim>\<open>apiKey\<close> (DeepSeek only). A stored value is
  read through an unchecked cast, so the key is absent in a configuration another adapter
  has stored.
\<close>

record model_config =
  nickname :: string
  providerId :: string
  model :: string
  contextWindow :: nat
  baseUrl :: string
  config_apiKey :: "string option"

text \<open>
  Modelled from the spec: \<^verbatim>\<open>getCompletionModelMetadata\<close> is declared in \<^verbatim>\<open>../utilities\<close>,
  which is not among the sources. It answers with the context window of a model the catalog
  knows, or with nothing.
\<close>

record metadata =
  meta_contextWindow :: nat

text \<open>A handle of the tokenizer library: \<^verbatim>\<open>encode(text, flag)\<close> and \<^verbatim>\<open>decode(tokens, flag)\<close>.\<close>

record tokenizer =
  tok_encode :: "string \<Rightarrow> bool \<Rightarrow> error + int list"
  tok_decode :: "int list \<Rightarrow> bool \<Rightarrow> error + string"

text \<open>
  A provider instance. \<^verbatim>\<open>tokenizer\<close> is declared by the DeepSeek and Ollama classes and
  stays unassigned until \<^verbatim>\<open>initialize\<close>; the llama.cpp class has none.
\<close>

record provider =
  config :: model_config
  tokenizer :: "tokenizer option"

text \<open>
  Modelled from the spec: \<^verbatim>\<open>ICompletionModelInvokeOptions\<close> is declared in
  \<^verbatim>\<open>../interfaces\<close>, which is not among the sources. The members are those the adapters
  read; each may be absent, as the llama.cpp adapter defaults every one of them.
\<close>

record messages =
  prefix :: "string option"
  suffix :: "string option"

record invoke_options =
  messages :: "messages option"
  maxTokens :: "int option"
  stop :: "string list option"
  temperature :: "real option"
  opt_signal :: "signal option"

datatype event =
    Log level
  | StoreGet string
  | StoreSet string model_config
  | Fetch request
  | OpenAINew client_options
  | CompletionsCreate json "signal option"
  | TokenizersGet string
  | TokenizersDownload string
  | InputBox string string
  | QuickPick "string list"
  | ProgressReport string

record 'b world =
  store :: "string \<Rightarrow> model_config option"
  backend :: 'b
  trace :: "event list"

subsection \<open>Sequencing effects\<close>

type_synonym ('a, 'b) eff = "'b world \<Rightarrow> (error + 'a) \<times> 'b world"

definition ret :: "'a \<Rightarrow> ('a, 'b) eff" where
  "ret a w = (Inr a, w)"

definition throw :: "error \<Rightarrow> ('a, 'b) eff" where
  "throw e w = (Inl e, w)"

definition bindE :: "('a, 'b) eff \<Rightarrow> ('a \<Rightarrow> ('c, 'b) eff) \<Rightarrow> ('c, 'b) eff" where
  "bindE m f w = (case m w of (Inl e, w') \<Rightarrow> (Inl e, w') | (Inr a, w') \<Rightarrow> f a w')"

definition emit :: "event \<Rightarrow> (unit, 'b) eff" where
  "emit e w = (Inr (), w\<lparr>trace := trace w @ [e]\<rparr>)"

text \<open>A call of a collaborator that has no state of its own: recorded, then its outcome.\<close>

definition call :: "event \<Rightarrow> error + 'a \<Rightarrow> ('a, 'b) eff" where
  "call e r w = (r, w\<lparr>trace := trace w @ [e]\<rparr>)"

text \<open>
  Modelled from the spec: \<^verbatim>\<open>storage\<close> is declared in \<^verbatim>\<open>../storage\<close>, which is not among
  the sources. \<^verbatim>\<open>storage.models.get\<close> answers with the configuration stored under a
  nickname, or with nothing; \<^verbatim>\<open>storage.models.set\<close> stores a configuration under a nickname.
\<close>

definition storage_get :: "string \<Rightarrow> (model_config option, 'b) eff" where
  "storage_get k w = (Inr (store w k), w\<lparr>trace := trace w @ [StoreGet k]\<rparr>)"

definition storage_set :: "string \<Rightarrow> model_config \<Rightarrow> (unit, 'b) eff" where
  "storage_set k c w =
     (Inr (), w\<lparr>store := (store w)(k \<mapsto> c), trace := trace w @ [StoreSet k c]\<rparr>)"

text \<open>
  \<^verbatim>\<open>fetch(url, init)\<close>: the transport is a parameter. It sees the request and the backend's
  state, and answers with a response or a rejection and the backend's next state.
\<close>

type_synonym 'b transport = "request \<Rightarrow> 'b \<Rightarrow> (error + http_response) \<times> 'b"

definition fetch :: "'b transport \<Rightarrow> request \<Rightarrow> (http_response, 'b) eff" where
  "fetch tr req w =
     (case tr req (backend w) of
        (r, b') \<Rightarrow> (r, w\<lparr>backend := b', trace := trace w @ [Fetch req]\<rparr>))"

text \<open>\<^verbatim>\<open>response.json()\<close> rejects when the body is not JSON.\<close>

definition json_of :: "http_response \<Rightarrow> (body, 'b) eff" where
  "json_of r = (case json_body r of None \<Rightarrow> throw SyntaxError | Some d \<Rightarrow> ret d)"

text \<open>The requests an adapter has handed to \<^verbatim>\<open>fetch\<close>, in order.\<close>

fun fetches :: "event list \<Rightarrow> request list" where
  "fetches [] = []"
| "fetches (Fetch r # es) = r # fetches es"
| "fetches (e # es) = fetches es"

text \<open>Decimal digits of a number, as a template literal prints it.\<close>

fun show_nat :: "nat \<Rightarrow> string" where
  "show_nat n =
     (if n < 10 then [''0123456789'' ! n]
      else show_nat (n div 10) @ [''0123456789'' ! (n mod 10)])"

definition json_headers :: "(string \<times> string) list" where
  "json_headers = [(''Content-Type'', ''application/json'')]"

subsection \<open>Construction\<close>

text \<open>
  The three constructors differ in the level of their log lines only.

  Modelled from the spec: the base class \<^verbatim>\<open>ICompletionModelProvider\<close> is declared in
  \<^verbatim>\<open>../interfaces\<close>, which is not among the sources. Construction is to have no effect
  beyond the store lookup, so the call \<^verbatim>\<open>super(nickname)\<close> adds no event.
\<close>

definition llamacpp_construct :: "string \<Rightarrow> (provider, 'b) eff" where
  "llamacpp_construct nick =
     bindE (emit (Log Debug)) (\<lambda>_.
     bindE (storage_get nick) (\<lambda>cfg.
       case cfg of
         None \<Rightarrow> throw (Error (''Model configuration not found for '' @ nick))
       | Some c \<Rightarrow>
           bindE (emit (Log Info)) (\<lambda>_.
           ret \<lparr>config = c, tokenizer = None\<rparr>)))"

definition deepseek_construct :: "string \<Rightarrow> (provider, 'b) eff" where
  "deepseek_construct nick =
     bindE (emit (Log Debug)) (\<lambda>_.
     bindE (storage_get nick) (\<lambda>cfg.
       case cfg of
         None \<Rightarrow> throw (Error (''Model configuration not found for '' @ nick))
       | Some c \<Rightarrow>
           bindE (emit (Log Info)) (\<lambda>_.
           ret \<lparr>config = c, tokenizer = None\<rparr>)))"

definition ollama_construct :: "string \<Rightarrow> (provider, 'b) eff" where
  "ollama_construct nick =
     bindE (emit (Log Info)) (\<lambda>_.
     bindE (storage_get nick) (\<lambda>cfg.
       case cfg of
         None \<Rightarrow> throw (Error (''Model configuration not found for '' @ nick))
       | Some c \<Rightarrow>
           bindE (emit (Log Debug)) (\<lambda>_.
           ret \<lparr>config = c, tokenizer = None\<rparr>)))"

subsection \<open>JavaScript operators the adapters use\<close>

text \<open>\<^verbatim>\<open>x ?? d\<close>, and \<^verbatim>\<open>x || d\<close> where \<open>x\<close> is an object or \<^verbatim>\<open>undefined\<close>.\<close>

definition nullish :: "'a option \<Rightarrow> 'a \<Rightarrow> 'a" where
  "nullish x d = (case x of None \<Rightarrow> d | Some v \<Rightarrow> v)"

text \<open>
  \<^verbatim>\<open>String.prototype.trim\<close>. A character of a \<open>string\<close> stands for a code unit below 256;
  the white space among these is the space, the controls 9 to 13 and the no-break space
  U+00A0.
\<close>

definition is_space :: "char \<Rightarrow> bool" where
  "is_space c =
     (c \<in> set [CHR '' '', CHR 0x09, CHR 0x0A, CHR 0x0B, CHR 0x0C, CHR 0x0D, CHR 0xA0])"

definition trim :: "string \<Rightarrow> string" where
  "trim s = rev (dropWhile is_space (rev (dropWhile is_space s)))"

text \<open>A collaborator's outcome, with no entry in the trace (a method of a local handle).\<close>

definition lift :: "error + 'a \<Rightarrow> ('a, 'b) eff" where
  "lift r w = (r, w)"

definition when_log :: "bool \<Rightarrow> level \<Rightarrow> (unit, 'b) eff" where
  "when_log c l = (if c then emit (Log l) else ret ())"

subsection \<open>The llama.cpp adapter\<close>

text \<open>The second argument of each \<^verbatim>\<open>fetch\<close> call, with the URL.\<close>

definition tokenize_request :: "provider \<Rightarrow> string \<Rightarrow> request" where
  "tokenize_request p txt =
     \<lparr>url = baseUrl (config p) @ ''/tokenize'', method = ''POST'', headers = json_headers,
      body = Some (obj [(''content'', Some (JStr txt)), (''add_special'', Some (JBool False))]),
      signal = None\<rparr>"


definition infill_request :: "provider \<Rightarrow> invoke_options \<Rightarrow> request" where
  "infill_request p options =
     \<lparr>url = baseUrl (config p) @ ''/infill'', method = ''POST'', headers = json_headers,
      body = Some (obj
        [(''input_prefix'',
            Some (JStr (nullish (case messages options of None \<Rightarrow> None | Some m \<Rightarrow> prefix m) []))),
         (''input_suffix'',
            Some (JStr (nullish (case messages options of None \<Rightarrow> None | Some m \<Rightarrow> suffix m) []))),
         (''n_predict'', Some (JNum (nullish (map_option of_int (maxTokens options)) 100))),
         (''stop'', Some (JArr (map JStr (nullish (stop options) [])))),
         (''stream'', Some (JBool False))]),
      signal = opt_signal options\<rparr>"

definition llamacpp_encode :: "'b transport \<Rightarrow> provider \<Rightarrow> string \<Rightarrow> (int list option, 'b) eff" where
  "llamacpp_encode tr p txt =
     bindE (emit (Log Debug)) (\<lambda>_.
     bindE (fetch tr (tokenize_request p txt)) (\<lambda>r.
     if \<not> ok r then
       throw (Error (''Failed to tokenize text: '' @ show_nat (status r) @ '' '' @ statusText r))
     else
       bindE (json_of r) (\<lambda>result. ret (tokens result))))"



definition llamacpp_invoke :: "'b transport \<Rightarrow> provider \<Rightarrow> invoke_options \<Rightarrow> (string, 'b) eff" where
  "llamacpp_invoke tr p options =
     bindE (emit (Log Debug)) (\<lambda>_.
     bindE (fetch tr (infill_request p options)) (\<lambda>r.
     if \<not> ok r then
       throw (Error (''Failed to invoke llama.cpp model: '' @ show_nat (status r) @ '' ''
                @ statusText r @ [CHR 0x0A] @ nullish (text_body r) ''Unknown error''))
     else
       bindE (json_of r) (\<lambda>result.
       bindE (when_log (truncated result = Some True) Warn) (\<lambda>_.
       bindE (when_log (timings result \<noteq> None) Debug) (\<lambda>_.
       bindE (emit (Log Debug)) (\<lambda>_.
       ret (nullish (content result) [])))))))"

subsection \<open>The DeepSeek adapter\<close>

text \<open>
  The OpenAI client: \<^verbatim>\<open>new OpenAI(options)\<close> may throw, and
  \<^verbatim>\<open>completions.create(params, {signal})\<close> answers with a completion or a rejection and the
  backend's next state.
\<close>

type_synonym 'b openai =
  "client_options \<Rightarrow> json \<Rightarrow> signal option \<Rightarrow> 'b \<Rightarrow> (error + completion) \<times> 'b"

definition openai_new :: "(client_options \<Rightarrow> error option) \<Rightarrow> client_options \<Rightarrow> (client_options, 'b) eff" where
  "openai_new mk c = call (OpenAINew c) (case mk c of Some e \<Rightarrow> Inl e | None \<Rightarrow> Inr c)"

definition completions_create ::
  "'b openai \<Rightarrow> client_options \<Rightarrow> json \<Rightarrow> signal option \<Rightarrow> (completion, 'b) eff" where
  "completions_create oa c params sg w =
     (case oa c params sg (backend w) of
        (r, b') \<Rightarrow> (r, w\<lparr>backend := b', trace := trace w @ [CompletionsCreate params sg]\<rparr>))"

definition deepseek_initialize :: "(string \<Rightarrow> error + tokenizer) \<Rightarrow> provider \<Rightarrow> (provider, 'b) eff" where
  "deepseek_initialize tokenizers_get p =
     bindE (call (TokenizersGet (model (config p))) (tokenizers_get (model (config p)))) (\<lambda>t.
     ret (p\<lparr>tokenizer := Some t\<rparr>))"

definition deepseek_encode :: "provider \<Rightarrow> string \<Rightarrow> (int list, 'b) eff" where
  "deepseek_encode p txt =
     bindE (emit (Log Debug)) (\<lambda>_.
     case tokenizer p of
       None \<Rightarrow> throw TypeError
     | Some t \<Rightarrow> lift (tok_encode t txt False))"

definition deepseek_decode :: "provider \<Rightarrow> int list \<Rightarrow> (string, 'b) eff" where
  "deepseek_decode p toks =
     bindE (emit (Log Debug)) (\<lambda>_.
     case tokenizer p of
       None \<Rightarrow> throw TypeError
     | Some t \<Rightarrow> lift (tok_decode t toks False))"

text \<open>The first argument of \<^verbatim>\<open>completions.create\<close> in \<^verbatim>\<open>invoke\<close>.\<close>

definition completion_params :: "provider \<Rightarrow> invoke_options \<Rightarrow> messages \<Rightarrow> json" where
  "completion_params p options m =
     obj [(''prompt'', map_option JStr (prefix m)),
          (''model'', Some (JStr (model (config p)))),
          (''max_tokens'', map_option (\<lambda>n. JNum (of_int n)) (maxTokens options)),
          (''stop'', map_option (\<lambda>l. JArr (map JStr l)) (stop options)),
          (''suffix'', map_option JStr (suffix m)),
          (''temperature'', map_option JNum (temperature options))]"

definition deepseek_invoke ::
  "(client_options \<Rightarrow> error option) \<Rightarrow> 'b openai \<Rightarrow> provider \<Rightarrow> invoke_options \<Rightarrow> (string, 'b) eff" where
  "deepseek_invoke mk oa p options =
     bindE (emit (Log Debug)) (\<lambda>_.
     bindE (openai_new mk \<lparr>apiKey = config_apiKey (config p), baseURL = baseUrl (config p)\<rparr>) (\<lambda>openai.
     case messages options of
       None \<Rightarrow> throw TypeError
     | Some m \<Rightarrow>
         bindE (completions_create oa openai (completion_params p options m)
                  (opt_signal options)) (\<lambda>response.
         bindE (emit (Log Debug)) (\<lambda>_.
         ret (case choices response of
                Some (c # _) \<Rightarrow> nullish (choice_text c) []
              | _ \<Rightarrow> [])))))"

subsection \<open>The Ollama adapter\<close>




text \<open>
  \<^verbatim>\<open>invoke\<close> returns \<^verbatim>\<open>data.response\<close> as it is: \<open>None\<close> is \<^verbatim>\<open>undefined\<close>. The member
  \<^verbatim>\<open>suffix: suffix || undefined\<close> is dropped for an absent and for an empty suffix.
\<close>

definition generate_request :: "provider \<Rightarrow> invoke_options \<Rightarrow> messages \<Rightarrow> request" where
  "generate_request p options m =
     \<lparr>url = baseUrl (config p) @ ''/api/generate'', method = ''POST'', headers = json_headers,
      body = Some (obj
        [(''model'', Some (JStr (model (config p)))),
         (''prompt'', map_option JStr (prefix m)),
         (''options'', Some (obj
            [(''num_predict'', map_option (\<lambda>n. JNum (of_int n)) (maxTokens options))])),
         (''suffix'', (case suffix m of
                         None \<Rightarrow> None
                       | Some s \<Rightarrow> if s = [] then None else Some (JStr s))),
         (''stream'', Some (JBool False))]),
      signal = opt_signal options\<rparr>"

definition ollama_invoke :: "'b transport \<Rightarrow> provider \<Rightarrow> invoke_options \<Rightarrow> (string option, 'b) eff" where
  "ollama_invoke tr p options =
     bindE (emit (Log Debug)) (\<lambda>_.
     case messages options of
       None \<Rightarrow> throw TypeError
     | Some m \<Rightarrow>
         bindE (fetch tr (generate_request p options m)) (\<lambda>r.
         if \<not> ok r then
           throw (Error (''Ollama API request failed: '' @ statusText r))
         else
           bindE (json_of r) (\<lambda>data.
           bindE (when_log (eval_duration data \<noteq> None \<and> eval_count data \<noteq> None) Debug) (\<lambda>_.
           bindE (emit (Log Debug)) (\<lambda>_.
           ret (response data))))))"

subsection \<open>Configuration\<close>

text \<open>
  The editor's prompts are parameters: \<open>ask title value\<close> is the answer to
  \<^verbatim>\<open>showInputBox\<close> with that title and initial value, \<open>pick labels\<close> the label chosen in
  \<^verbatim>\<open>showQuickPick\<close>; \<open>None\<close> is the prompt dismissed (\<^verbatim>\<open>undefined\<close>).
\<close>

definition showInputBox :: "(string \<Rightarrow> string \<Rightarrow> string option) \<Rightarrow> string \<Rightarrow> string \<Rightarrow> (string option, 'b) eff" where
  "showInputBox ask title val = call (InputBox title val) (Inr (ask title val))"

definition showQuickPick :: "(string list \<Rightarrow> string option) \<Rightarrow> string list \<Rightarrow> (string option, 'b) eff" where
  "showQuickPick pick labels = call (QuickPick labels) (Inr (pick labels))"

definition tokenizers_download :: "(string \<Rightarrow> error option) \<Rightarrow> string \<Rightarrow> (unit, 'b) eff" where
  "tokenizers_download dl m =
     call (TokenizersDownload m) (case dl m of Some e \<Rightarrow> Inl e | None \<Rightarrow> Inr ())"

text \<open>
  The prompt for the API key refuses an empty input in the editor (\<^verbatim>\<open>validateInput\<close>); what
  the user finally submits is the parameter's answer. \<^verbatim>\<open>Tokenizers.download\<close> and
  \<^verbatim>\<open>Tokenizers.get\<close> are parameters as well: they may reject.
\<close>

definition getApiKeyInput ::"(string \<Rightarrow> string \<Rightarrow> string option) \<Rightarrow> string option \<Rightarrow> (string, 'b) eff" where
  "getApiKeyInput ask key =
     bindE (emit (Log Debug)) (\<lambda>_.
     bindE (showInputBox ask ''Flexpilot: Enter your DeepSeek API key'' (nullish key [])) (\<lambda>newApiKey.
     case newApiKey of
       None \<Rightarrow> throw (Error ''User cancelled DeepSeek API key input'')
     | Some k \<Rightarrow>
         bindE (emit (Log Debug)) (\<lambda>_.
         ret (trim k))))"

definition deepseek_configure ::
  "(string \<Rightarrow> string \<Rightarrow> string option) \<Rightarrow> (string \<Rightarrow> error option) \<Rightarrow>
   (client_options \<Rightarrow> error option) \<Rightarrow> 'b openai \<Rightarrow> (string \<Rightarrow> metadata option) \<Rightarrow>
   string \<Rightarrow> (unit, 'b) eff" where
  "deepseek_configure ask dl mk oa getCompletionModelMetadata nick =
     bindE (emit (Log Info)) (\<lambda>_.
     bindE (storage_get nick) (\<lambda>cfg.
     bindE (getApiKeyInput ask (case cfg of None \<Rightarrow> None | Some c \<Rightarrow> config_apiKey c)) (\<lambda>key.
     bindE (showInputBox ask ''Flexpilot: Enter the base URL for DeepSeek API''
              (nullish (map_option baseUrl cfg) ''https://api.deepseek.com/beta'')) (\<lambda>answer.
     case answer of
       None \<Rightarrow> throw (Error ''User cancelled base URL input'')
     | Some raw \<Rightarrow>
         bindE (emit (Log Info)) (\<lambda>_.
         bindE (tokenizers_download dl ''deepseek-chat'') (\<lambda>_.
         bindE (emit (ProgressReport ''Testing connection credentials'')) (\<lambda>_.
         bindE (emit (Log Debug)) (\<lambda>_.
         bindE (openai_new mk \<lparr>apiKey = Some key, baseURL = trim raw\<rparr>) (\<lambda>openai.
         bindE (completions_create oa openai (obj
            [(''model'', Some (JStr ''deepseek-chat'')),
             (''max_tokens'', Some (JNum 3)),
             (''prompt'', Some (JStr ''How'')),
             (''suffix'', Some (JStr ''are you?''))]) None) (\<lambda>_.
         bindE (emit (Log Info)) (\<lambda>_.
         case getCompletionModelMetadata ''deepseek-chat'' of
           None \<Rightarrow> throw (Error ''Unable to find model metadata'')
         | Some md \<Rightarrow>
             bindE (emit (Log Info)) (\<lambda>_.
             bindE (storage_set nick
                \<lparr>nickname = nick, providerId = ''deepseek-completion'', model = ''deepseek-chat'',
                 contextWindow = meta_contextWindow md, baseUrl = trim raw,
                 config_apiKey = Some key\<rparr>) (\<lambda>_.
             emit (Log Info))))))))))))))"

text \<open>
  The loop over the fetched model list: one log line per model; a model the catalog knows
  is offered, and its context window is remembered when it is not zero.
\<close>

fun scan_models ::
  "(string \<Rightarrow> metadata option) \<Rightarrow> ollama_model list \<Rightarrow> string list \<Rightarrow> (string \<Rightarrow> nat option) \<Rightarrow>
   'b world \<Rightarrow> (string list \<times> (string \<Rightarrow> nat option)) \<times> 'b world" where
  "scan_models getCompletionModelMetadata [] items cwm w = ((items, cwm), w)"
| "scan_models getCompletionModelMetadata (m # ms) items cwm w =
     (case getCompletionModelMetadata (name m) of
        None \<Rightarrow>
          scan_models getCompletionModelMetadata ms items cwm (w\<lparr>trace := trace w @ [Log Debug]\<rparr>)
      | Some md \<Rightarrow>
          scan_models getCompletionModelMetadata ms (items @ [name m])
            (if meta_contextWindow md \<noteq> 0 then cwm(name m \<mapsto> meta_contextWindow md) else cwm)
            (w\<lparr>trace := trace w @ [Log Debug]\<rparr>))"

definition tags_request :: "string \<Rightarrow> request" where
  "tags_request base =
     \<lparr>url = base @ ''/api/tags'', method = ''GET'', headers = [], body = None, signal = None\<rparr>"

definition probe_request :: "string \<Rightarrow> string \<Rightarrow> request" where
  "probe_request base label =
     \<lparr>url = base @ ''/api/generate'', method = ''POST'', headers = json_headers,
      body = Some (obj
        [(''model'', Some (JStr label)),
         (''options'', Some (obj [(''num_predict'', Some (JNum 3))])),
         (''prompt'', Some (JStr ''Hello'')),
         (''stream'', Some (JBool False))]),
      signal = None\<rparr>"

definition ollama_configure ::
  "(string \<Rightarrow> string \<Rightarrow> string option) \<Rightarrow> (string list \<Rightarrow> string option) \<Rightarrow>
   (string \<Rightarrow> error option) \<Rightarrow> 'b transport \<Rightarrow> (string \<Rightarrow> metadata option) \<Rightarrow>
   string \<Rightarrow> (unit, 'b) eff" where
  "ollama_configure ask pick dl tr getCompletionModelMetadata nick =
     bindE (emit (Log Info)) (\<lambda>_.
     bindE (storage_get nick) (\<lambda>cfg.
     bindE (showInputBox ask ''Flexpilot: Enter the base URL for Ollama API''
              (nullish (map_option baseUrl cfg) ''http://localhost:11434'')) (\<lambda>answer.
     case answer of
       None \<Rightarrow> throw (Error ''User cancelled base URL input'')
     | Some raw \<Rightarrow>
         bindE (emit (ProgressReport ''Fetching available models'')) (\<lambda>_.
         bindE (fetch tr (tags_request (trim raw))) (\<lambda>r.
         if \<not> ok r then
           throw (Error (''Failed to fetch models: '' @ statusText r))
         else
           bindE (json_of r) (\<lambda>data.
           bindE (\<lambda>w. case scan_models getCompletionModelMetadata (nullish (models data) []) []
                              Map.empty w of
                         (res, w') \<Rightarrow> (Inr res, w')) (\<lambda>(modelPickUpItems, contextWindowMap).
           if modelPickUpItems = [] then
             throw (Error ''No models found for the given configuration'')
           else
             bindE (showQuickPick pick modelPickUpItems) (\<lambda>chosen.
             case chosen of
               None \<Rightarrow> throw (Error ''User cancelled model selection'')
             | Some label \<Rightarrow>
                 bindE (emit (Log Info)) (\<lambda>_.
                 bindE (tokenizers_download dl label) (\<lambda>_.
                 bindE (emit (ProgressReport ''Testing connection credentials'')) (\<lambda>_.
                 bindE (emit (Log Debug)) (\<lambda>_.
                 bindE (fetch tr (probe_request (trim raw) label)) (\<lambda>probe.
                 if \<not> ok probe then
                   throw (Error (''Connection test failed: '' @ statusText probe))
                 else
                   bindE (emit (Log Info)) (\<lambda>_.
                   bindE (emit (Log Info)) (\<lambda>_.
                   bindE (storage_set nick
                      \<lparr>nickname = nick, providerId = ''ollama-completion'', model = label,
                       contextWindow =
                         (case contextWindowMap label of
                            None \<Rightarrow> 4096
                          | Some n \<Rightarrow> if n = 0 then 4096 else n),
                       baseUrl = trim raw, config_apiKey = None\<rparr>) (\<lambda>_.
                   emit (Log Info)))))))))))))))))"

subsection \<open>Reading traces and requests\<close>

text \<open>A cancellation signal that has already fired.\<close>

definition cancelled :: "signal option \<Rightarrow> bool" where
  "cancelled sg = (case sg of None \<Rightarrow> False | Some s \<Rightarrow> aborted s)"

text \<open>The calls of \<^verbatim>\<open>completions.create\<close> in a trace, in order.\<close>

fun creates :: "event list \<Rightarrow> (json \<times> signal option) list" where
  "creates [] = []"
| "creates (CompletionsCreate j sg # es) = (j, sg) # creates es"
| "creates (e # es) = creates es"

text \<open>The calls of \<^verbatim>\<open>storage.models.set\<close> in a trace, in order.\<close>

fun store_sets :: "event list \<Rightarrow> (string \<times> model_config) list" where
  "store_sets [] = []"
| "store_sets (StoreSet k c # es) = (k, c) # store_sets es"
| "store_sets (e # es) = store_sets es"

text \<open>A member of a request's JSON body.\<close>

definition member :: "request \<Rightarrow> string \<Rightarrow> json option" where
  "member req k = (case body req of Some (JObj kvs) \<Rightarrow> map_of kvs k | _ \<Rightarrow> None)"


subsection \<open>Example inputs\<close>

text \<open>A world with an empty store; the backend's state counts the requests it has served.\<close>

definition empty_world :: "nat world" where
  "empty_world = \<lparr>store = Map.empty, backend = 0, trace = []\<rparr>"

text \<open>The stored llama.cpp configuration and the invocation of the specification's example.\<close>

definition example_config :: model_config where
  "example_config =
     \<lparr>nickname = ''local'', providerId = ''llama.cpp-completion'', model = [],
      contextWindow = 32768, baseUrl = ''http://localhost:8012'', config_apiKey = None\<rparr>"

definition example_provider :: provider where
  "example_provider = \<lparr>config = example_config, tokenizer = None\<rparr>"

definition example_options :: invoke_options where
  "example_options =
     \<lparr>messages = Some \<lparr>prefix = Some (''def add(a, b):'' @ [CHR 0x0A] @ ''    ''), suffix = Some []\<rparr>,
      maxTokens = Some 50, stop = Some [], temperature = None, opt_signal = None\<rparr>"

definition bare_options :: invoke_options where
  "bare_options =
     \<lparr>messages = None, maxTokens = None, stop = None, temperature = None, opt_signal = None\<rparr>"

definition cancelled_options :: invoke_options where
  "cancelled_options = example_options\<lparr>opt_signal := Some (AbortSignal True)\<rparr>"

text \<open>The JSON object \<^verbatim>\<open>{}\<close>.\<close>

definition empty_body :: body where
  "empty_body =
     \<lparr>tokens = None, content = None, tokens_cached = None, truncated = None, timings = None,
      models = None, response = None, eval_duration = None, eval_count = None\<rparr>"

text \<open>
  A transport that rejects a request whose signal has fired without serving it, and
  answers every other request with the same response.
\<close>

definition answering :: "http_response \<Rightarrow> nat transport" where
  "answering r req n = (if cancelled (signal req) then (Inl AbortError, n) else (Inr r, Suc n))"

definition ok_response :: "body \<Rightarrow> http_response" where
  "ok_response d = \<lparr>status = 200, statusText = ''OK'', text_body = None, json_body = Some d\<rparr>"


text \<open>A tokenizer handle whose tokens are the character codes.\<close>

definition byte_tokenizer :: tokenizer where
  "byte_tokenizer =
     \<lparr>tok_encode = (\<lambda>txt special. Inr (map (\<lambda>c. int (of_char c)) txt)),
      tok_decode = (\<lambda>toks special. Inr (map (\<lambda>t. char_of (nat t)) toks))\<rparr>"

definition deepseek_config :: model_config where
  "deepseek_config =
     \<lparr>nickname = ''ds'', providerId = ''deepseek-completion'', model = ''deepseek-chat'',
      contextWindow = 65536, baseUrl = ''https://api.deepseek.com/beta'',
      config_apiKey = Some ''sk-test''\<rparr>"

definition deepseek_example :: provider where
  "deepseek_example = \<lparr>config = deepseek_config, tokenizer = Some byte_tokenizer\<rparr>"

definition ollama_config :: model_config where
  "ollama_config =
     \<lparr>nickname = ''ol'', providerId = ''ollama-completion'', model = ''codellama'',
      contextWindow = 4096, baseUrl = ''http://localhost:11434'', config_apiKey = None\<rparr>"

definition ollama_example :: provider where
  "ollama_example = \<lparr>config = ollama_config, tokenizer = Some byte_tokenizer\<rparr>"

text \<open>Stubs of the OpenAI client and of the other collaborators.\<close>

definition always_succeeds :: "'a \<Rightarrow> error option" where
  "always_succeeds x = None"

definition completing :: "completion \<Rightarrow> nat openai" where
  "completing c opts params sg n =
     (if cancelled sg then (Inl AbortError, n) else (Inr c, Suc n))"


definition byte_tokenizers :: "string \<Rightarrow> error + tokenizer" where
  "byte_tokenizers m = Inr byte_tokenizer"

text \<open>A user who answers the API key prompt with \<open>key\<close> and any other prompt with \<open>base\<close>.\<close>

definition answers :: "string \<Rightarrow> string \<Rightarrow> string \<Rightarrow> string \<Rightarrow> string option" where
  "answers key base title val =
     (if title = ''Flexpilot: Enter your DeepSeek API key'' then Some key else Some base)"

definition first_label :: "string list \<Rightarrow> string option" where
  "first_label labels = (case labels of [] \<Rightarrow> None | l # _ \<Rightarrow> Some l)"

text \<open>A metadata catalog that knows one model.\<close>

definition catalog :: "string \<Rightarrow> metadata option" where
  "catalog m = (if m = ''deepseek-chat'' then Some \<lparr>meta_contextWindow = 65536\<rparr> else None)"

text \<open>An answer of \<^verbatim>\<open>/api/tags\<close> that lists one model, unknown to the catalog.\<close>

definition tags_body :: body where
  "tags_body = empty_body\<lparr>models := Some [\<lparr>name = ''my-private-model''\<rparr>]\<rparr>"

text \<open>A world whose store holds an Ollama configuration under the nickname \<open>ol\<close>.\<close>

definition ollama_world :: "nat world" where
  "ollama_world = \<lparr>store = [''ol'' \<mapsto> ollama_config], backend = 0, trace = []\<rparr>"






section \<open>Properties\<close>

lemmas eff_defs = bindE_def ret_def throw_def emit_def call_def storage_get_def storage_set_def
  fetch_def json_of_def lift_def when_log_def

lemma fetches_append: "fetches (xs @ ys) = fetches xs @ fetches ys"
  by (induction xs rule: fetches.induct) simp_all

subsection \<open>Helper facts\<close>

lemma creates_append: "creates (xs @ ys) = creates xs @ creates ys"
  by (induction xs rule: creates.induct) simp_all

lemma obj_Nil: "obj [] = JObj []"
  by (simp add: obj_def List.map_filter_simps)

lemma obj_Cons:
  "obj ((k, v) # kvs) =
     (case v of None \<Rightarrow> obj kvs
      | Some j \<Rightarrow> JObj ((k, j) # List.map_filter (\<lambda>(k, v). map_option (Pair k) v) kvs))"
  by (simp add: obj_def List.map_filter_simps split: option.splits)

text \<open>The llama.cpp \<^verbatim>\<open>invoke\<close>, outcome by outcome of its one request.\<close>

lemma llamacpp_invoke_rejected:
  assumes "tr (infill_request p options) (backend w) = (Inl e, b')"
  shows "llamacpp_invoke tr p options w =
           (Inl e, w\<lparr>backend := b',
                     trace := trace w @ [Log Debug, Fetch (infill_request p options)]\<rparr>)"
  using assms by (simp add: llamacpp_invoke_def eff_defs)

lemma llamacpp_invoke_not_ok:
  assumes "tr (infill_request p options) (backend w) = (Inr r, b')" and "\<not> ok r"
  shows "llamacpp_invoke tr p options w =
           (Inl (Error (''Failed to invoke llama.cpp model: '' @ show_nat (status r) @ '' ''
                @ statusText r @ [CHR 0x0A] @ nullish (text_body r) ''Unknown error'')),
            w\<lparr>backend := b',
              trace := trace w @ [Log Debug, Fetch (infill_request p options)]\<rparr>)"
  using assms by (simp add: llamacpp_invoke_def eff_defs)

lemma llamacpp_invoke_no_json:
  assumes "tr (infill_request p options) (backend w) = (Inr r, b')" and "ok r"
    and "json_body r = None"
  shows "llamacpp_invoke tr p options w =
           (Inl SyntaxError,
            w\<lparr>backend := b',
              trace := trace w @ [Log Debug, Fetch (infill_request p options)]\<rparr>)"
  using assms by (simp add: llamacpp_invoke_def eff_defs)

lemma llamacpp_invoke_ok:
  assumes "tr (infill_request p options) (backend w) = (Inr r, b')" and "ok r"
    and "json_body r = Some d"
  shows "llamacpp_invoke tr p options w =
           (Inr (nullish (content d) []),
            w\<lparr>backend := b',
              trace := trace w @ [Log Debug, Fetch (infill_request p options)]
                 @ (if truncated d = Some True then [Log Warn] else [])
                 @ (if timings d \<noteq> None then [Log Debug] else [])
                 @ [Log Debug]\<rparr>)"
  using assms by (simp add: llamacpp_invoke_def eff_defs)

lemma llamacpp_invoke_fetches:
  "fetches (trace (snd (llamacpp_invoke tr p options w))) =
     fetches (trace w) @ [infill_request p options]"
proof (cases "tr (infill_request p options) (backend w)")
  case (Pair x b')
  show ?thesis
  proof (cases x)
    case (Inl e)
    with Pair show ?thesis by (simp add: llamacpp_invoke_rejected fetches_append)
  next
    case (Inr r)
    show ?thesis
    proof (cases "ok r")
      case False
      with Pair Inr show ?thesis by (simp add: llamacpp_invoke_not_ok fetches_append)
    next
      case True
      with Pair Inr show ?thesis
        by (cases "json_body r")
           (simp_all add: llamacpp_invoke_no_json llamacpp_invoke_ok fetches_append)
    qed
  qed
qed

text \<open>The Ollama \<^verbatim>\<open>invoke\<close>, outcome by outcome.\<close>

lemma ollama_invoke_no_messages:
  assumes "messages options = None"
  shows "ollama_invoke tr p options w = (Inl TypeError, w\<lparr>trace := trace w @ [Log Debug]\<rparr>)"
  using assms by (simp add: ollama_invoke_def eff_defs)

lemma ollama_invoke_rejected:
  assumes "messages options = Some m"
    and "tr (generate_request p options m) (backend w) = (Inl e, b')"
  shows "ollama_invoke tr p options w =
           (Inl e, w\<lparr>backend := b',
                     trace := trace w @ [Log Debug, Fetch (generate_request p options m)]\<rparr>)"
  using assms by (simp add: ollama_invoke_def eff_defs)

lemma ollama_invoke_not_ok:
  assumes "messages options = Some m"
    and "tr (generate_request p options m) (backend w) = (Inr r, b')" and "\<not> ok r"
  shows "ollama_invoke tr p options w =
           (Inl (Error (''Ollama API request failed: '' @ statusText r)),
            w\<lparr>backend := b',
              trace := trace w @ [Log Debug, Fetch (generate_request p options m)]\<rparr>)"
  using assms by (simp add: ollama_invoke_def eff_defs)

lemma ollama_invoke_no_json:
  assumes "messages options = Some m"
    and "tr (generate_request p options m) (backend w) = (Inr r, b')" and "ok r"
    and "json_body r = None"
  shows "ollama_invoke tr p options w =
           (Inl SyntaxError,
            w\<lparr>backend := b',
              trace := trace w @ [Log Debug, Fetch (generate_request p options m)]\<rparr>)"
  using assms by (simp add: ollama_invoke_def eff_defs)

lemma ollama_invoke_ok:
  assumes "messages options = Some m"
    and "tr (generate_request p options m) (backend w) = (Inr r, b')" and "ok r"
    and "json_body r = Some d"
  shows "ollama_invoke tr p options w =
           (Inr (response d),
            w\<lparr>backend := b',
              trace := trace w @ [Log Debug, Fetch (generate_request p options m)]
                 @ (if eval_duration d \<noteq> None \<and> eval_count d \<noteq> None then [Log Debug] else [])
                 @ [Log Debug]\<rparr>)"
  using assms by (simp add: ollama_invoke_def eff_defs)

lemma ollama_invoke_fetches:
  assumes "messages options = Some m"
  shows "fetches (trace (snd (ollama_invoke tr p options w))) =
           fetches (trace w) @ [generate_request p options m]"
proof (cases "tr (generate_request p options m) (backend w)")
  case (Pair x b')
  show ?thesis
  proof (cases x)
    case (Inl e)
    with Pair assms show ?thesis by (simp add: ollama_invoke_rejected fetches_append)
  next
    case (Inr r)
    show ?thesis
    proof (cases "ok r")
      case False
      with Pair Inr assms show ?thesis by (simp add: ollama_invoke_not_ok fetches_append)
    next
      case True
      with Pair Inr assms show ?thesis
        by (cases "json_body r")
           (simp_all add: ollama_invoke_no_json ollama_invoke_ok fetches_append)
    qed
  qed
qed

text \<open>The DeepSeek \<^verbatim>\<open>invoke\<close>, outcome by outcome.\<close>

lemma deepseek_invoke_no_client:
  assumes "mk \<lparr>apiKey = config_apiKey (config p), baseURL = baseUrl (config p)\<rparr> = Some e"
  shows "deepseek_invoke mk oa p options w =
           (Inl e, w\<lparr>trace := trace w @ [Log Debug,
               OpenAINew \<lparr>apiKey = config_apiKey (config p), baseURL = baseUrl (config p)\<rparr>]\<rparr>)"
  using assms by (simp add: deepseek_invoke_def openai_new_def eff_defs)

lemma deepseek_invoke_rejected:
  assumes "mk \<lparr>apiKey = config_apiKey (config p), baseURL = baseUrl (config p)\<rparr> = None"
    and "messages options = Some m"
    and "oa \<lparr>apiKey = config_apiKey (config p), baseURL = baseUrl (config p)\<rparr>
            (completion_params p options m) (opt_signal options) (backend w) = (Inl e, b')"
  shows "deepseek_invoke mk oa p options w =
           (Inl e, w\<lparr>backend := b', trace := trace w @ [Log Debug,
               OpenAINew \<lparr>apiKey = config_apiKey (config p), baseURL = baseUrl (config p)\<rparr>,
               CompletionsCreate (completion_params p options m) (opt_signal options)]\<rparr>)"
  using assms by (simp add: deepseek_invoke_def openai_new_def completions_create_def eff_defs)

lemma deepseek_invoke_ok:
  assumes "mk \<lparr>apiKey = config_apiKey (config p), baseURL = baseUrl (config p)\<rparr> = None"
    and "messages options = Some m"
    and "oa \<lparr>apiKey = config_apiKey (config p), baseURL = baseUrl (config p)\<rparr>
            (completion_params p options m) (opt_signal options) (backend w) = (Inr c, b')"
  shows "deepseek_invoke mk oa p options w =
           (Inr (case choices c of Some (x # _) \<Rightarrow> nullish (choice_text x) [] | _ \<Rightarrow> []),
            w\<lparr>backend := b', trace := trace w @ [Log Debug,
               OpenAINew \<lparr>apiKey = config_apiKey (config p), baseURL = baseUrl (config p)\<rparr>,
               CompletionsCreate (completion_params p options m) (opt_signal options),
               Log Debug]\<rparr>)"
  using assms by (simp add: deepseek_invoke_def openai_new_def completions_create_def eff_defs)

text \<open>Encoding and decoding.\<close>

lemma llamacpp_encode_fetches:
  "fetches (trace (snd (llamacpp_encode tr p txt w))) = fetches (trace w) @ [tokenize_request p txt]"
proof (cases "tr (tokenize_request p txt) (backend w)")
  case (Pair x b')
  then show ?thesis
    by (cases x; cases "json_body (projr x)")
       (simp_all add: llamacpp_encode_def eff_defs fetches_append)
qed

lemma llamacpp_encode_ok:
  assumes "tr (tokenize_request p txt) (backend w) = (Inr r, b')" and "ok r"
    and "json_body r = Some d"
  shows "llamacpp_encode tr p txt w =
           (Inr (tokens d),
            w\<lparr>backend := b', trace := trace w @ [Log Debug, Fetch (tokenize_request p txt)]\<rparr>)"
  using assms by (simp add: llamacpp_encode_def eff_defs)

lemma deepseek_encode_world:
  "snd (deepseek_encode p txt w) = w\<lparr>trace := trace w @ [Log Debug]\<rparr>"
  by (simp add: deepseek_encode_def eff_defs split: option.splits)

lemma deepseek_decode_world:
  "snd (deepseek_decode p toks w) = w\<lparr>trace := trace w @ [Log Debug]\<rparr>"
  by (simp add: deepseek_decode_def eff_defs split: option.splits)

lemma deepseek_encode_result:
  "fst (deepseek_encode p txt w) =
     (case tokenizer p of None \<Rightarrow> Inl TypeError | Some t \<Rightarrow> tok_encode t txt False)"
  by (simp add: deepseek_encode_def eff_defs split: option.splits)

lemma deepseek_decode_result:
  "fst (deepseek_decode p toks w) =
     (case tokenizer p of None \<Rightarrow> Inl TypeError | Some t \<Rightarrow> tok_decode t toks False)"
  by (simp add: deepseek_decode_def eff_defs split: option.splits)


lemma deepseek_construct_ok:
  assumes "store w nick = Some c"
  shows "deepseek_construct nick w =
           (Inr \<lparr>config = c, tokenizer = None\<rparr>,
            w\<lparr>trace := trace w @ [Log Debug, StoreGet nick, Log Info]\<rparr>)"
  using assms by (simp add: deepseek_construct_def eff_defs)

lemma deepseek_initialize_trace:
  "trace (snd (deepseek_initialize tg p w)) = trace w @ [TokenizersGet (model (config p))]"
  by (simp add: deepseek_initialize_def eff_defs split: sum.splits)

lemma deepseek_initialize_ok:
  "tg (model (config p)) = Inr t \<Longrightarrow>
   fst (deepseek_initialize tg p w) = Inr (p\<lparr>tokenizer := Some t\<rparr>)"
  by (simp add: deepseek_initialize_def eff_defs)

text \<open>Facts about the single request of each \<^verbatim>\<open>invoke\<close> and about cancelling stubs.\<close>

lemma deepseek_invoke_creates:
  assumes "mk \<lparr>apiKey = config_apiKey (config p), baseURL = baseUrl (config p)\<rparr> = None"
    and "messages options = Some m"
  shows "creates (trace (snd (deepseek_invoke mk oa p options w))) =
           creates (trace w) @ [(completion_params p options m, opt_signal options)]"
proof (cases "oa \<lparr>apiKey = config_apiKey (config p), baseURL = baseUrl (config p)\<rparr>
                 (completion_params p options m) (opt_signal options) (backend w)")
  case (Pair x b')
  with assms show ?thesis
    by (cases x) (simp_all add: deepseek_invoke_rejected deepseek_invoke_ok creates_append)
qed

lemma answering_cancelled:
  "\<forall>req b. cancelled (signal req) \<longrightarrow> answering r req b = (Inl AbortError, b)"
  by (simp add: answering_def)

lemma completing_cancelled:
  "\<forall>c j sg b. cancelled sg \<longrightarrow> completing x c j sg b = (Inl AbortError, b)"
  by (simp add: completing_def)

text \<open>Configuration runs.\<close>

lemma store_sets_append: "store_sets (xs @ ys) = store_sets xs @ store_sets ys"
  by (induction xs rule: store_sets.induct) simp_all

lemma store_sets_logs: "store_sets (replicate n (Log l)) = []"
  by (induction n) simp_all

lemma scan_models_unknown:
  assumes "\<forall>m \<in> set ms. meta (name m) = None"
  shows "scan_models meta ms items cwm w =
           ((items, cwm), w\<lparr>trace := trace w @ replicate (length ms) (Log Debug)\<rparr>)"
  using assms
proof (induction ms arbitrary: w)
  case Nil
  then show ?case by simp
next
  case (Cons m ms)
  then show ?case by (simp add: replicate_app_Cons_same)
qed

lemma deepseek_configure_store:
  assumes "deepseek_configure ask dl mk oa meta nick w = (Inr u, w')"
  shows "\<exists>c. store w' nick = Some c \<and> model c = ''deepseek-chat''"
  using assms
  by (auto simp: deepseek_configure_def getApiKeyInput_def showInputBox_def
        tokenizers_download_def openai_new_def completions_create_def eff_defs
        split: option.splits sum.splits prod.splits if_splits)

lemma deepseek_configure_run:
  "deepseek_configure (answers '' sk-test '' ''https://api.deepseek.com/beta'') always_succeeds
      always_succeeds (completing \<lparr>choices = None\<rparr>) catalog ''ds'' empty_world =
   (Inr (),
    \<lparr>store = [''ds'' \<mapsto> deepseek_config],
     backend = 1,
     trace = [Log Info, StoreGet ''ds'', Log Debug,
       InputBox ''Flexpilot: Enter your DeepSeek API key'' [], Log Debug,
       InputBox ''Flexpilot: Enter the base URL for DeepSeek API'' ''https://api.deepseek.com/beta'',
       Log Info, TokenizersDownload ''deepseek-chat'',
       ProgressReport ''Testing connection credentials'', Log Debug,
       OpenAINew \<lparr>apiKey = Some ''sk-test'', baseURL = ''https://api.deepseek.com/beta''\<rparr>,
       CompletionsCreate (JObj [(''model'', JStr ''deepseek-chat''), (''max_tokens'', JNum 3),
          (''prompt'', JStr ''How''), (''suffix'', JStr ''are you?'')]) None,
       Log Info, Log Info, StoreSet ''ds'' deepseek_config, Log Info]\<rparr>)"
  by (simp add: deepseek_configure_def getApiKeyInput_def showInputBox_def
        tokenizers_download_def openai_new_def completions_create_def eff_defs
        answers_def always_succeeds_def completing_def cancelled_def catalog_def
        empty_world_def nullish_def trim_def is_space_def obj_Cons obj_Nil
        List.map_filter_simps deepseek_config_def)

lemma char_of_104: "char_of (104::nat) = CHR ''h''"
  by code_simp

lemma char_of_105: "char_of (105::nat) = CHR ''i''"
  by code_simp








subsection \<open>An empty completion\<close>

text \<open>
  C1. When the backend answers with a 2xx status and a body without generated text,
  \<^verbatim>\<open>invoke\<close> is to resolve to the empty string. The llama.cpp adapter and the DeepSeek
  adapter do. The Ollama adapter does not: it returns the member \<^verbatim>\<open>response\<close> unchecked, so
  on a 200 response with the body \<^verbatim>\<open>{}\<close> it resolves to \<^verbatim>\<open>undefined\<close>, where the two other
  adapters, on a body without their member, resolve to the empty string.
\<close>

theorem ollama_invoke_absent_response:
  "ok (ok_response empty_body) \<and> response empty_body = None
   \<and> content empty_body = None
   \<and> fst (ollama_invoke (answering (ok_response empty_body)) ollama_example example_options
          empty_world) = Inr None
   \<and> fst (ollama_invoke (answering (ok_response empty_body)) ollama_example example_options
          empty_world) \<noteq> Inr (Some [])
   \<and> fst (llamacpp_invoke (answering (ok_response empty_body)) example_provider example_options
          empty_world) = Inr []
   \<and> fst (deepseek_invoke always_succeeds (completing \<lparr>choices = None\<rparr>) deepseek_example
          example_options empty_world) = Inr []"
  by (simp add: ollama_invoke_def llamacpp_invoke_def deepseek_invoke_def openai_new_def
        completions_create_def eff_defs example_options_def empty_world_def answering_def
        cancelled_def ok_response_def ok_def empty_body_def generate_request_def
        infill_request_def always_succeeds_def completing_def nullish_def)

subsection \<open>A non-2xx response\<close>




subsection \<open>The tokenizer of a DeepSeek provider\<close>

text \<open>
  C3, as the code has it. \<^verbatim>\<open>initialize\<close> of a DeepSeek provider asks the tokenizer cache
  once, for the key that is the \<^verbatim>\<open>model\<close> member of the instance's stored configuration,
  and keeps the handle it gets. Every configuration that DeepSeek's \<^verbatim>\<open>configure\<close> has
  stored has the model \<^verbatim>\<open>deepseek-chat\<close>, and a provider constructed from it holds that
  configuration, so for those the key is \<^verbatim>\<open>deepseek-chat\<close>.
  \<^verbatim>\<open>encode\<close> and \<^verbatim>\<open>decode\<close> compute on that handle: they write one log line and send no
  request.
\<close>

theorem deepseek_tokenizer_key:
  fixes oa :: "'b openai"
  shows "trace (snd (deepseek_initialize tg p w)) = trace w @ [TokenizersGet (model (config p))]
       \<and> (\<forall>t. tg (model (config p)) = Inr t \<longrightarrow>
            fst (deepseek_initialize tg p w) = Inr (p\<lparr>tokenizer := Some t\<rparr>))
       \<and> (\<forall>w'. deepseek_configure ask dl mk oa meta nick w = (Inr (), w') \<longrightarrow>
            (\<exists>c. store w' nick = Some c \<and> model c = ''deepseek-chat''
                 \<and> fst (deepseek_construct nick w') = Inr \<lparr>config = c, tokenizer = None\<rparr>))
       \<and> snd (deepseek_encode p txt w) = w\<lparr>trace := trace w @ [Log Debug]\<rparr>
       \<and> snd (deepseek_decode p toks w) = w\<lparr>trace := trace w @ [Log Debug]\<rparr>
       \<and> (\<forall>t. tokenizer p = Some t \<longrightarrow>
            fst (deepseek_encode p txt w) = tok_encode t txt False
            \<and> fst (deepseek_decode p toks w) = tok_decode t toks False)"
proof -
  have cfg: "\<exists>c. store w' nick = Some c \<and> model c = ''deepseek-chat''
                 \<and> fst (deepseek_construct nick w') = Inr \<lparr>config = c, tokenizer = None\<rparr>"
    if "deepseek_configure ask dl mk oa meta nick w = (Inr (), w')" for w'
  proof -
    from deepseek_configure_store [OF that]
    obtain c where c: "store w' nick = Some c" "model c = ''deepseek-chat''" by blast
    then show ?thesis by (simp add: deepseek_construct_ok)
  qed
  show ?thesis
    using cfg
    by (simp add: deepseek_initialize_trace deepseek_initialize_ok deepseek_encode_world
          deepseek_decode_world deepseek_encode_result deepseek_decode_result)
qed

theorem deepseek_tokenizer_key_witness:
  "store (snd (deepseek_configure (answers '' sk-test '' ''https://api.deepseek.com/beta'')
       always_succeeds always_succeeds (completing \<lparr>choices = None\<rparr>) catalog ''ds''
       empty_world)) ''ds'' = Some deepseek_config
   \<and> model deepseek_config = ''deepseek-chat''
   \<and> trace (snd (deepseek_initialize byte_tokenizers
        \<lparr>config = deepseek_config, tokenizer = None\<rparr> empty_world)) =
       [TokenizersGet ''deepseek-chat'']
   \<and> fst (deepseek_initialize byte_tokenizers \<lparr>config = deepseek_config, tokenizer = None\<rparr>
        empty_world) = Inr deepseek_example
   \<and> snd (deepseek_encode deepseek_example ''hi'' empty_world) =
       \<lparr>store = Map.empty, backend = 0, trace = [Log Debug]\<rparr>
   \<and> fst (deepseek_encode deepseek_example ''hi'' empty_world) = Inr [104, 105]
   \<and> fst (deepseek_decode deepseek_example [104, 105] empty_world) = Inr ''hi''"
  using deepseek_tokenizer_key [of byte_tokenizers "\<lparr>config = deepseek_config, tokenizer = None\<rparr>"
          empty_world "answers '' sk-test '' ''https://api.deepseek.com/beta''" always_succeeds
          always_succeeds "completing \<lparr>choices = None\<rparr>" catalog "''ds''" "''hi''" "[104, 105]"]
        deepseek_tokenizer_key [of byte_tokenizers deepseek_example
          empty_world "answers '' sk-test '' ''https://api.deepseek.com/beta''" always_succeeds
          always_succeeds "completing \<lparr>choices = None\<rparr>" catalog "''ds''" "''hi''" "[104, 105]"]
  apply (simp add: deepseek_configure_run)
  apply (simp add: byte_tokenizers_def deepseek_example_def byte_tokenizer_def empty_world_def
           deepseek_config_def char_of_104 char_of_105)
  done

text \<open>
  C3 as stated fails: a DeepSeek provider constructed from a stored configuration whose
  model is \<^verbatim>\<open>codellama\<close> asks the cache for \<^verbatim>\<open>codellama\<close>, not for \<^verbatim>\<open>deepseek-chat\<close>.
\<close>

theorem deepseek_initialize_stored_model:
  "store ollama_world ''ol'' = Some ollama_config \<and> model ollama_config = ''codellama''
   \<and> trace (snd (bindE (deepseek_construct ''ol'') (deepseek_initialize byte_tokenizers)
        ollama_world)) =
       [Log Debug, StoreGet ''ol'', Log Info, TokenizersGet ''codellama'']
   \<and> TokenizersGet ''deepseek-chat'' \<notin> set (trace (snd (bindE (deepseek_construct ''ol'')
        (deepseek_initialize byte_tokenizers) ollama_world)))"
  by (simp add: deepseek_construct_def deepseek_initialize_def eff_defs ollama_world_def
        ollama_config_def byte_tokenizers_def)

subsection \<open>Construction from an unknown nickname\<close>

text \<open>
  C4. For each of the three adapters, constructing a provider for a nickname that has no
  entry in the configuration store throws \<^verbatim>\<open>Model configuration not found for <nickname>\<close>
  and yields no instance. The store and the backend are left as they were, and the trace
  grows by the constructor's first log line and the store lookup only: no request is sent.
\<close>

theorem construct_absent:
  assumes "store w nick = None"
  shows "llamacpp_construct nick w =
           (Inl (Error (''Model configuration not found for '' @ nick)),
            w\<lparr>trace := trace w @ [Log Debug, StoreGet nick]\<rparr>)
       \<and> deepseek_construct nick w =
           (Inl (Error (''Model configuration not found for '' @ nick)),
            w\<lparr>trace := trace w @ [Log Debug, StoreGet nick]\<rparr>)
       \<and> ollama_construct nick w =
           (Inl (Error (''Model configuration not found for '' @ nick)),
            w\<lparr>trace := trace w @ [Log Info, StoreGet nick]\<rparr>)"
  using assms
  by (simp add: llamacpp_construct_def deepseek_construct_def ollama_construct_def eff_defs)

theorem construct_absent_witness:
  "store empty_world ''missing'' = None
   \<and> llamacpp_construct ''missing'' empty_world =
       (Inl (Error ''Model configuration not found for missing''),
        \<lparr>store = Map.empty, backend = 0, trace = [Log Debug, StoreGet ''missing'']\<rparr>)
   \<and> deepseek_construct ''missing'' empty_world =
       (Inl (Error ''Model configuration not found for missing''),
        \<lparr>store = Map.empty, backend = 0, trace = [Log Debug, StoreGet ''missing'']\<rparr>)
   \<and> ollama_construct ''missing'' empty_world =
       (Inl (Error ''Model configuration not found for missing''),
        \<lparr>store = Map.empty, backend = 0, trace = [Log Info, StoreGet ''missing'']\<rparr>)"
  using construct_absent [of empty_world "''missing''"]
  by (simp add: empty_world_def)

subsection \<open>The llama.cpp infill request\<close>

text \<open>
  C5. For a llama.cpp provider, \<^verbatim>\<open>invoke\<close> with messages \<open>{prefix p, suffix s}\<close>,
  \<^verbatim>\<open>maxTokens\<close> \<open>n\<close> and stop list \<open>l\<close> hands exactly one request to \<^verbatim>\<open>fetch\<close>: a POST to
  \<^verbatim>\<open>baseUrl + "/infill"\<close> with the JSON body \<open>{input_prefix: p, input_suffix: s,
  n_predict: n, stop: l, stream: false}\<close> and the caller's signal. When the response is 2xx
  with a JSON body, the result is the body's \<^verbatim>\<open>content\<close> member, or the empty string when
  that member is absent.
\<close>

theorem llamacpp_invoke_infill:
  fixes tr :: "'b transport"
  assumes "messages options = Some \<lparr>prefix = Some p, suffix = Some s\<rparr>"
    and "maxTokens options = Some n" and "stop options = Some l"
  shows "(let req = \<lparr>url = baseUrl (config pr) @ ''/infill'', method = ''POST'',
                     headers = [(''Content-Type'', ''application/json'')],
                     body = Some (JObj [(''input_prefix'', JStr p), (''input_suffix'', JStr s),
                                        (''n_predict'', JNum (of_int n)),
                                        (''stop'', JArr (map JStr l)),
                                        (''stream'', JBool False)]),
                     signal = opt_signal options\<rparr>
          in fetches (trace (snd (llamacpp_invoke tr pr options w))) = fetches (trace w) @ [req]
           \<and> (\<forall>r b' d. tr req (backend w) = (Inr r, b') \<and> ok r \<and> json_body r = Some d \<longrightarrow>
                 fst (llamacpp_invoke tr pr options w) =
                   Inr (case content d of None \<Rightarrow> [] | Some c \<Rightarrow> c)))"
proof -
  have req: "infill_request pr options =
      \<lparr>url = baseUrl (config pr) @ ''/infill'', method = ''POST'',
       headers = [(''Content-Type'', ''application/json'')],
       body = Some (JObj [(''input_prefix'', JStr p), (''input_suffix'', JStr s),
                          (''n_predict'', JNum (of_int n)), (''stop'', JArr (map JStr l)),
                          (''stream'', JBool False)]),
       signal = opt_signal options\<rparr>"
    using assms
    by (simp add: infill_request_def json_headers_def obj_Cons obj_Nil nullish_def
          List.map_filter_simps)
  show ?thesis
    unfolding Let_def req [symmetric]
    by (auto simp: llamacpp_invoke_fetches llamacpp_invoke_ok nullish_def)
qed

theorem llamacpp_invoke_infill_witness:
  "fetches (trace (snd (llamacpp_invoke (answering (ok_response empty_body)) example_provider
       example_options empty_world))) =
     [\<lparr>url = ''http://localhost:8012/infill'', method = ''POST'',
       headers = [(''Content-Type'', ''application/json'')],
       body = Some (JObj [(''input_prefix'', JStr (''def add(a, b):'' @ [CHR 0x0A] @ ''    '')),
                          (''input_suffix'', JStr []), (''n_predict'', JNum 50),
                          (''stop'', JArr []), (''stream'', JBool False)]),
       signal = None\<rparr>]
   \<and> fst (llamacpp_invoke (answering (ok_response empty_body)) example_provider
       example_options empty_world) = Inr []"
proof -
  have m: "messages example_options =
             Some \<lparr>prefix = Some (''def add(a, b):'' @ [CHR 0x0A] @ ''    ''), suffix = Some []\<rparr>"
    and n: "maxTokens example_options = Some 50" and l: "stop example_options = Some []"
    by (simp_all add: example_options_def)
  show ?thesis
    using llamacpp_invoke_infill [where tr = "answering (ok_response empty_body)"
        and pr = example_provider and w = empty_world, OF m n l]
    by (simp add: Let_def example_provider_def example_config_def example_options_def
          empty_world_def answering_def cancelled_def ok_response_def ok_def empty_body_def)
qed

subsection \<open>Encoding with and without the network\<close>

text \<open>
  C6. The DeepSeek \<^verbatim>\<open>encode\<close> changes nothing in the world but for one log line (no request
  is handed to \<^verbatim>\<open>fetch\<close> or to the OpenAI client, the backend is untouched) and its result
  is what the local tokenizer handle computes with the flag \<^verbatim>\<open>false\<close>. The llama.cpp
  \<^verbatim>\<open>encode\<close> hands exactly one request to \<^verbatim>\<open>fetch\<close>, whatever the outcome: a POST to
  \<^verbatim>\<open>baseUrl + "/tokenize"\<close> with the body \<open>{content: text, add_special: false}\<close>; when the
  response is 2xx with a JSON body, the result is the body's \<^verbatim>\<open>tokens\<close> member.
\<close>

theorem encode_network:
  fixes tr :: "'b transport"
  shows "snd (deepseek_encode p txt w) = w\<lparr>trace := trace w @ [Log Debug]\<rparr>
       \<and> (\<forall>t. tokenizer p = Some t \<longrightarrow> fst (deepseek_encode p txt w) = tok_encode t txt False)
       \<and> (let req = \<lparr>url = baseUrl (config q) @ ''/tokenize'', method = ''POST'',
                       headers = [(''Content-Type'', ''application/json'')],
                       body = Some (JObj [(''content'', JStr txt), (''add_special'', JBool False)]),
                       signal = None\<rparr>
          in fetches (trace (snd (llamacpp_encode tr q txt w))) = fetches (trace w) @ [req]
           \<and> (\<forall>r b' d. tr req (backend w) = (Inr r, b') \<and> ok r \<and> json_body r = Some d \<longrightarrow>
                 fst (llamacpp_encode tr q txt w) = Inr (tokens d)))"
proof -
  have req: "tokenize_request q txt =
      \<lparr>url = baseUrl (config q) @ ''/tokenize'', method = ''POST'',
       headers = [(''Content-Type'', ''application/json'')],
       body = Some (JObj [(''content'', JStr txt), (''add_special'', JBool False)]),
       signal = None\<rparr>"
    by (simp add: tokenize_request_def json_headers_def obj_Cons obj_Nil List.map_filter_simps)
  show ?thesis
    unfolding Let_def req [symmetric]
    by (auto simp: deepseek_encode_world deepseek_encode_result llamacpp_encode_fetches
          llamacpp_encode_ok)
qed

theorem encode_network_witness:
  "tokenizer deepseek_example = Some byte_tokenizer
   \<and> snd (deepseek_encode deepseek_example ''hi'' empty_world) =
       \<lparr>store = Map.empty, backend = 0, trace = [Log Debug]\<rparr>
   \<and> fst (deepseek_encode deepseek_example ''hi'' empty_world) = Inr [104, 105]
   \<and> fetches (trace (snd (llamacpp_encode (answering (ok_response (empty_body\<lparr>tokens := Some [7, 8]\<rparr>)))
        example_provider ''hi'' empty_world))) =
       [\<lparr>url = ''http://localhost:8012/tokenize'', method = ''POST'',
         headers = [(''Content-Type'', ''application/json'')],
         body = Some (JObj [(''content'', JStr ''hi''), (''add_special'', JBool False)]),
         signal = None\<rparr>]
   \<and> fst (llamacpp_encode (answering (ok_response (empty_body\<lparr>tokens := Some [7, 8]\<rparr>)))
        example_provider ''hi'' empty_world) = Inr (Some [7, 8])"
  using encode_network [of deepseek_example "''hi''" empty_world example_provider
      "answering (ok_response (empty_body\<lparr>tokens := Some [7, 8]\<rparr>))"]
  by (simp add: Let_def deepseek_example_def byte_tokenizer_def empty_world_def
        example_provider_def example_config_def answering_def cancelled_def ok_response_def
        ok_def empty_body_def)

subsection \<open>Ollama configuration without a known model\<close>

text \<open>
  C7. In a run of Ollama's \<^verbatim>\<open>configure\<close> where the user has given a base URL and
  \<^verbatim>\<open>/api/tags\<close> has answered with a 2xx JSON body, if the catalog knows none of the listed
  models (or the list is absent), \<^verbatim>\<open>configure\<close> throws
  \<^verbatim>\<open>No models found for the given configuration\<close>, the store is unchanged and
  \<^verbatim>\<open>storage.models.set\<close> has not been called.
\<close>

theorem ollama_configure_no_models:
  fixes tr :: "'b transport"
  assumes "ask ''Flexpilot: Enter the base URL for Ollama API''
             (case store w nick of None \<Rightarrow> ''http://localhost:11434'' | Some c \<Rightarrow> baseUrl c)
           = Some raw"
    and "tr (tags_request (trim raw)) (backend w) = (Inr r, b')"
    and "ok r" and "json_body r = Some d"
    and "\<forall>m \<in> set (case models d of None \<Rightarrow> [] | Some ms \<Rightarrow> ms).
           getCompletionModelMetadata (name m) = None"
  shows "fst (ollama_configure ask pick dl tr getCompletionModelMetadata nick w) =
           Inl (Error ''No models found for the given configuration'')
       \<and> store (snd (ollama_configure ask pick dl tr getCompletionModelMetadata nick w)) = store w
       \<and> store_sets (trace (snd (ollama_configure ask pick dl tr getCompletionModelMetadata nick w)))
           = store_sets (trace w)"
proof -
  let ?ms = "nullish (models d) []"
  have unknown: "\<forall>m \<in> set ?ms. getCompletionModelMetadata (name m) = None"
    using assms(5) by (simp add: nullish_def)
  have ask: "ask ''Flexpilot: Enter the base URL for Ollama API''
               (nullish (map_option baseUrl (store w nick)) ''http://localhost:11434'') = Some raw"
    using assms(1) by (simp add: nullish_def split: option.splits)
  show ?thesis
    using ask assms(2-4)
    by (simp add: ollama_configure_def showInputBox_def eff_defs
          scan_models_unknown [OF unknown] store_sets_append store_sets_logs)
qed

theorem ollama_configure_no_models_witness:
  "answers [] '' http://localhost:11434 '' ''Flexpilot: Enter the base URL for Ollama API''
      ''http://localhost:11434'' = Some '' http://localhost:11434 ''
   \<and> ok (ok_response tags_body)
   \<and> models tags_body = Some [\<lparr>name = ''my-private-model''\<rparr>]
   \<and> catalog ''my-private-model'' = None
   \<and> fst (ollama_configure (answers [] '' http://localhost:11434 '') first_label always_succeeds
        (answering (ok_response tags_body)) catalog ''ol'' empty_world) =
       Inl (Error ''No models found for the given configuration'')
   \<and> store (snd (ollama_configure (answers [] '' http://localhost:11434 '') first_label
        always_succeeds (answering (ok_response tags_body)) catalog ''ol'' empty_world)) = Map.empty
   \<and> store_sets (trace (snd (ollama_configure (answers [] '' http://localhost:11434 '')
        first_label always_succeeds (answering (ok_response tags_body)) catalog ''ol''
        empty_world))) = []"
proof -
  have a: "answers [] '' http://localhost:11434 '' ''Flexpilot: Enter the base URL for Ollama API''
             (case store empty_world ''ol'' of None \<Rightarrow> ''http://localhost:11434''
              | Some c \<Rightarrow> baseUrl c) = Some '' http://localhost:11434 ''"
    by (simp add: answers_def empty_world_def)
  have b: "answering (ok_response tags_body) (tags_request (trim '' http://localhost:11434 ''))
             (backend empty_world) = (Inr (ok_response tags_body), Suc 0)"
    by (simp add: answering_def cancelled_def tags_request_def empty_world_def)
  have c: "ok (ok_response tags_body)"
    by (simp add: ok_def ok_response_def)
  have d: "json_body (ok_response tags_body) = Some tags_body"
    by (simp add: ok_response_def)
  have e: "\<forall>m \<in> set (case models tags_body of None \<Rightarrow> [] | Some ms \<Rightarrow> ms).
             catalog (name m) = None"
    by (simp add: tags_body_def empty_body_def catalog_def)
  show ?thesis
    using ollama_configure_no_models [where ask = "answers [] '' http://localhost:11434 ''"
        and w = empty_world and nick = "''ol''" and raw = "'' http://localhost:11434 ''"
        and tr = "answering (ok_response tags_body)" and r = "ok_response tags_body"
        and b' = "Suc 0" and d = tags_body and getCompletionModelMetadata = catalog
        and pick = first_label and dl = always_succeeds, OF a b c d e] a c
    by (simp add: empty_world_def tags_body_def empty_body_def catalog_def)
qed

subsection \<open>Cancellation\<close>

text \<open>
  C8. Each adapter passes the caller's signal on with its one request: it is the
  \<^verbatim>\<open>signal\<close> of the request handed to \<^verbatim>\<open>fetch\<close> (llama.cpp, Ollama) and the request option
  of \<^verbatim>\<open>completions.create\<close> (DeepSeek). When the signal has already fired and the transport
  rejects such a request with a cancellation error without touching the backend,
  \<^verbatim>\<open>invoke\<close> resolves to that cancellation error, and the backend and the store are as
  before. For Ollama and DeepSeek this is for a request that has its messages, and for
  DeepSeek for a client that can be constructed.
\<close>

theorem invoke_cancelled:
  fixes tr :: "'b transport" and oa :: "'b openai"
  shows "fetches (trace (snd (llamacpp_invoke tr p options w))) =
           fetches (trace w) @ [infill_request p options]
       \<and> signal (infill_request p options) = opt_signal options
       \<and> (\<forall>m. messages options = Some m \<longrightarrow>
             fetches (trace (snd (ollama_invoke tr p options w))) =
               fetches (trace w) @ [generate_request p options m]
             \<and> signal (generate_request p options m) = opt_signal options)
       \<and> (\<forall>m. messages options = Some m
             \<and> mk \<lparr>apiKey = config_apiKey (config p), baseURL = baseUrl (config p)\<rparr> = None \<longrightarrow>
             creates (trace (snd (deepseek_invoke mk oa p options w))) =
               creates (trace w) @ [(completion_params p options m, opt_signal options)])
       \<and> (cancelled (opt_signal options)
            \<and> (\<forall>req b. cancelled (signal req) \<longrightarrow> tr req b = (Inl AbortError, b)) \<longrightarrow>
             fst (llamacpp_invoke tr p options w) = Inl AbortError
             \<and> backend (snd (llamacpp_invoke tr p options w)) = backend w
             \<and> store (snd (llamacpp_invoke tr p options w)) = store w)
       \<and> (cancelled (opt_signal options) \<and> messages options \<noteq> None
            \<and> (\<forall>req b. cancelled (signal req) \<longrightarrow> tr req b = (Inl AbortError, b)) \<longrightarrow>
             fst (ollama_invoke tr p options w) = Inl AbortError
             \<and> backend (snd (ollama_invoke tr p options w)) = backend w
             \<and> store (snd (ollama_invoke tr p options w)) = store w)
       \<and> (cancelled (opt_signal options) \<and> messages options \<noteq> None
            \<and> mk \<lparr>apiKey = config_apiKey (config p), baseURL = baseUrl (config p)\<rparr> = None
            \<and> (\<forall>c j sg b. cancelled sg \<longrightarrow> oa c j sg b = (Inl AbortError, b)) \<longrightarrow>
             fst (deepseek_invoke mk oa p options w) = Inl AbortError
             \<and> backend (snd (deepseek_invoke mk oa p options w)) = backend w
             \<and> store (snd (deepseek_invoke mk oa p options w)) = store w)"
proof -
  have sig1: "signal (infill_request p options) = opt_signal options"
    by (simp add: infill_request_def)
  have sig2: "signal (generate_request p options m) = opt_signal options" for m
    by (simp add: generate_request_def)
  have llama: "fst (llamacpp_invoke tr p options w) = Inl AbortError
             \<and> backend (snd (llamacpp_invoke tr p options w)) = backend w
             \<and> store (snd (llamacpp_invoke tr p options w)) = store w"
    if "cancelled (opt_signal options)"
      and "\<forall>req b. cancelled (signal req) \<longrightarrow> tr req b = (Inl AbortError, b)"
  proof -
    from that sig1 have "tr (infill_request p options) (backend w) = (Inl AbortError, backend w)"
      by simp
    then show ?thesis by (simp add: llamacpp_invoke_rejected)
  qed
  have ollama: "fst (ollama_invoke tr p options w) = Inl AbortError
             \<and> backend (snd (ollama_invoke tr p options w)) = backend w
             \<and> store (snd (ollama_invoke tr p options w)) = store w"
    if "cancelled (opt_signal options)" and "messages options \<noteq> None"
      and "\<forall>req b. cancelled (signal req) \<longrightarrow> tr req b = (Inl AbortError, b)"
  proof -
    from that(2) obtain m where m: "messages options = Some m" by auto
    from that sig2 [of m]
    have "tr (generate_request p options m) (backend w) = (Inl AbortError, backend w)"
      by simp
    with m show ?thesis by (simp add: ollama_invoke_rejected)
  qed
  have deepseek: "fst (deepseek_invoke mk oa p options w) = Inl AbortError
             \<and> backend (snd (deepseek_invoke mk oa p options w)) = backend w
             \<and> store (snd (deepseek_invoke mk oa p options w)) = store w"
    if "cancelled (opt_signal options)" and "messages options \<noteq> None"
      and "mk \<lparr>apiKey = config_apiKey (config p), baseURL = baseUrl (config p)\<rparr> = None"
      and "\<forall>c j sg b. cancelled sg \<longrightarrow> oa c j sg b = (Inl AbortError, b)"
  proof -
    from that(2) obtain m where m: "messages options = Some m" by auto
    from that have "oa \<lparr>apiKey = config_apiKey (config p), baseURL = baseUrl (config p)\<rparr>
        (completion_params p options m) (opt_signal options) (backend w)
          = (Inl AbortError, backend w)"
      by simp
    with m that(3) show ?thesis by (simp add: deepseek_invoke_rejected)
  qed
  show ?thesis
    using llama ollama deepseek
    by (simp add: llamacpp_invoke_fetches ollama_invoke_fetches deepseek_invoke_creates sig1 sig2)
qed

theorem invoke_cancelled_witness:
  "cancelled (opt_signal cancelled_options) \<and> messages cancelled_options \<noteq> None
   \<and> signal (infill_request example_provider cancelled_options) = Some (AbortSignal True)
   \<and> fst (llamacpp_invoke (answering (ok_response empty_body)) example_provider cancelled_options
          empty_world) = Inl AbortError
   \<and> backend (snd (llamacpp_invoke (answering (ok_response empty_body)) example_provider
          cancelled_options empty_world)) = 0
   \<and> fst (ollama_invoke (answering (ok_response empty_body)) ollama_example cancelled_options
          empty_world) = Inl AbortError
   \<and> backend (snd (ollama_invoke (answering (ok_response empty_body)) ollama_example
          cancelled_options empty_world)) = 0
   \<and> fst (deepseek_invoke always_succeeds (completing \<lparr>choices = None\<rparr>) deepseek_example
          cancelled_options empty_world) = Inl AbortError
   \<and> backend (snd (deepseek_invoke always_succeeds (completing \<lparr>choices = None\<rparr>)
          deepseek_example cancelled_options empty_world)) = 0"
proof -
  have c: "cancelled (opt_signal cancelled_options)" and m: "messages cancelled_options \<noteq> None"
    by (simp_all add: cancelled_options_def example_options_def cancelled_def)
  have mk: "always_succeeds x = None" for x :: client_options
    by (simp add: always_succeeds_def)
  show ?thesis
    using invoke_cancelled [of "answering (ok_response empty_body)" example_provider
            cancelled_options empty_world always_succeeds "completing \<lparr>choices = None\<rparr>"]
          invoke_cancelled [of "answering (ok_response empty_body)" ollama_example
            cancelled_options empty_world always_succeeds "completing \<lparr>choices = None\<rparr>"]
          invoke_cancelled [of "answering (ok_response empty_body)" deepseek_example
            cancelled_options empty_world always_succeeds "completing \<lparr>choices = None\<rparr>"]
          c m mk answering_cancelled [of "ok_response empty_body"]
          completing_cancelled [of "\<lparr>choices = None\<rparr>"]
    by (simp add: empty_world_def cancelled_options_def)
qed

subsection \<open>Decoding what was encoded\<close>



subsection \<open>Defaults of the llama.cpp adapter\<close>

text \<open>
  C10. The one request of the llama.cpp \<^verbatim>\<open>invoke\<close> carries \<open>n_predict: 100\<close> when
  \<^verbatim>\<open>maxTokens\<close> is absent, \<open>input_prefix\<close> (\<open>input_suffix\<close>) as the empty string when
  the messages or their prefix (suffix) are absent, and \<open>stop: []\<close> when \<^verbatim>\<open>stop\<close> is
  absent.
\<close>

theorem llamacpp_invoke_defaults:
  fixes tr :: "'b transport"
  shows "fetches (trace (snd (llamacpp_invoke tr pr options w))) =
           fetches (trace w) @ [infill_request pr options]
       \<and> (maxTokens options = None \<longrightarrow>
            member (infill_request pr options) ''n_predict'' = Some (JNum 100))
       \<and> (messages options = None \<or> (\<exists>m. messages options = Some m \<and> prefix m = None) \<longrightarrow>
            member (infill_request pr options) ''input_prefix'' = Some (JStr []))
       \<and> (messages options = None \<or> (\<exists>m. messages options = Some m \<and> suffix m = None) \<longrightarrow>
            member (infill_request pr options) ''input_suffix'' = Some (JStr []))
       \<and> (stop options = None \<longrightarrow>
            member (infill_request pr options) ''stop'' = Some (JArr []))"
  by (auto simp: llamacpp_invoke_fetches member_def infill_request_def obj_Cons obj_Nil
        nullish_def List.map_filter_simps)

theorem llamacpp_invoke_defaults_witness:
  "maxTokens bare_options = None \<and> messages bare_options = None \<and> stop bare_options = None
   \<and> fetches (trace (snd (llamacpp_invoke (answering (ok_response empty_body)) example_provider
        bare_options empty_world))) =
       [\<lparr>url = ''http://localhost:8012/infill'', method = ''POST'',
         headers = [(''Content-Type'', ''application/json'')],
         body = Some (JObj [(''input_prefix'', JStr []), (''input_suffix'', JStr []),
                            (''n_predict'', JNum 100), (''stop'', JArr []),
                            (''stream'', JBool False)]),
         signal = None\<rparr>]
   \<and> member (infill_request example_provider bare_options) ''n_predict'' = Some (JNum 100)
   \<and> member (infill_request example_provider bare_options) ''input_prefix'' = Some (JStr [])
   \<and> member (infill_request example_provider bare_options) ''input_suffix'' = Some (JStr [])
   \<and> member (infill_request example_provider bare_options) ''stop'' = Some (JArr [])"
  using llamacpp_invoke_defaults [of "answering (ok_response empty_body)" example_provider
      bare_options empty_world]
  by (simp add: bare_options_def empty_world_def infill_request_def example_provider_def
        example_config_def json_headers_def obj_Cons obj_Nil nullish_def List.map_filter_simps)

end
